theory Spec2Isabelle
  imports Complex_Main
begin

section \<open>Python values\<close>

text \<open>
  The program is one Python script, \<^verbatim>\<open>app.py\<close>. A Python \<^verbatim>\<open>str\<close> is a sequence of
  Unicode code points and \<^verbatim>\<open>==\<close> compares code point by code point, so a string is
  modelled as the list of its code points. The script's literals are Japanese; each is
  written out below as the code points of the literal in the source, with the source line.
\<close>

type_synonym pystr = "nat list"

definition ascii :: "string \<Rightarrow> pystr" where
  \<comment> \<open>an ASCII literal of the source: every character is its own code point\<close>
  "ascii s = map of_char s"

text \<open>
  \<^verbatim>\<open>str.isspace\<close> on one code point: the characters that \<^verbatim>\<open>str.strip()\<close> without
  an argument removes (CPython's \<^verbatim>\<open>Py_UNICODE_ISSPACE\<close>): the ASCII controls 0x09-0x0D and
  0x1C-0x1F, the space, and the Unicode white space beyond ASCII.
\<close>

definition isspace :: "nat \<Rightarrow> bool" where
  "isspace c \<longleftrightarrow>
     (0x09 \<le> c \<and> c \<le> 0x0D) \<or> (0x1C \<le> c \<and> c \<le> 0x20) \<or> c = 0x85 \<or> c = 0xA0 \<or>
     c = 0x1680 \<or> (0x2000 \<le> c \<and> c \<le> 0x200A) \<or> c = 0x2028 \<or> c = 0x2029 \<or>
     c = 0x202F \<or> c = 0x205F \<or> c = 0x3000"

definition strip :: "pystr \<Rightarrow> pystr" where
  \<comment> \<open>\<^verbatim>\<open>s.strip()\<close>: leading and trailing white space removed\<close>
  "strip s = rev (dropWhile isspace (rev (dropWhile isspace s)))"

definition truthy :: "pystr option \<Rightarrow> bool" where
  \<comment> \<open>the truth value of an \<^verbatim>\<open>Optional[str]\<close>: \<^verbatim>\<open>None\<close> and the empty string are false\<close>
  "truthy v = (case v of None \<Rightarrow> False | Some s \<Rightarrow> s \<noteq> [])"

section \<open>The literals of the script\<close>

definition msg_api_key_missing :: pystr where
  \<comment> \<open>line 17, the text of the start-up error: the OpenAI API key is not set, check the .env file\<close>
  "msg_api_key_missing =
    [79, 112, 101, 110, 65, 73, 32, 65, 80, 73, 0x30AD, 0x30FC, 0x304C,
     0x8A2D, 0x5B9A, 0x3055, 0x308C, 0x3066, 0x3044, 0x307E, 0x305B, 0x3093,
     0x3002, 46, 101, 110, 118, 0x30D5, 0x30A1, 0x30A4, 0x30EB, 0x3092,
     0x78BA, 0x8A8D, 0x3057, 0x3066, 0x304F, 0x3060, 0x3055, 0x3044, 0x3002]"

definition tag_counselor :: pystr where
  \<comment> \<open>line 34, the counselor tag (shinri kaunseraa, 8 code points)\<close>
  "tag_counselor =
    [0x5FC3, 0x7406, 0x30AB, 0x30A6, 0x30F3, 0x30BB, 0x30E9, 0x30FC]"

definition instruction_counselor :: pystr where
  \<comment> \<open>line 35, the system instruction of the counselor persona (74 code points)\<close>
  "instruction_counselor =
    [0x3042, 0x306A, 0x305F, 0x306F, 0x7D4C, 0x9A13, 0x8C4A, 0x5BCC, 0x3067,
     0x5171, 0x611F, 0x529B, 0x306E, 0x9AD8, 0x3044, 0x5FC3, 0x7406, 0x30AB,
     0x30A6, 0x30F3, 0x30BB, 0x30E9, 0x30FC, 0x3067, 0x3059, 0x3002, 0x5229,
     0x7528, 0x8005, 0x306E, 0x60A9, 0x307F, 0x3084, 0x611F, 0x60C5, 0x306B,
     0x5BC4, 0x308A, 0x6DFB, 0x3044, 0x3001, 0x5C02, 0x9580, 0x7684, 0x306A,
     0x77E5, 0x8B58, 0x306B, 0x57FA, 0x3065, 0x3044, 0x3066, 0x5177, 0x4F53,
     0x7684, 0x304B, 0x3064, 0x5EFA, 0x8A2D, 0x7684, 0x306A, 0x30A2, 0x30C9,
     0x30D0, 0x30A4, 0x30B9, 0x3092, 0x3057, 0x3066, 0x304F, 0x3060, 0x3055,
     0x3044, 0x3002]"

definition tag_health_advisor :: pystr where
  \<comment> \<open>line 36, the health-advisor tag (kenkou adobaizaa, 8 code points)\<close>
  "tag_health_advisor =
    [0x5065, 0x5EB7, 0x30A2, 0x30C9, 0x30D0, 0x30A4, 0x30B6, 0x30FC]"

definition instruction_health_advisor :: pystr where
  \<comment> \<open>line 37, the system instruction of the health-advisor persona (84 code points)\<close>
  "instruction_health_advisor =
    [0x3042, 0x306A, 0x305F, 0x306F, 0x77E5, 0x8B58, 0x304C, 0x8C4A, 0x5BCC,
     0x3067, 0x4FE1, 0x983C, 0x3067, 0x304D, 0x308B, 0x5065, 0x5EB7, 0x30A2,
     0x30C9, 0x30D0, 0x30A4, 0x30B6, 0x30FC, 0x3067, 0x3059, 0x3002, 0x6804,
     0x990A, 0x3001, 0x904B, 0x52D5, 0x3001, 0x751F, 0x6D3B, 0x7FD2, 0x6163,
     0x306B, 0x95A2, 0x3059, 0x308B, 0x8CEA, 0x554F, 0x306B, 0x5BFE, 0x3057,
     0x3001, 0x79D1, 0x5B66, 0x7684, 0x6839, 0x62E0, 0x306B, 0x57FA, 0x3065,
     0x3044, 0x305F, 0x5206, 0x304B, 0x308A, 0x3084, 0x3059, 0x3044, 0x60C5,
     0x5831, 0x3068, 0x5B9F, 0x8DF5, 0x7684, 0x306A, 0x30A2, 0x30C9, 0x30D0,
     0x30A4, 0x30B9, 0x3092, 0x63D0, 0x4F9B, 0x3057, 0x3066, 0x304F, 0x3060,
     0x3055, 0x3044, 0x3002]"

definition instruction_default :: pystr where
  \<comment> \<open>line 40, the generic assistant instruction of the else branch (21 code points)\<close>
  "instruction_default =
    [0x3042, 0x306A, 0x305F, 0x306F, 0x89AA, 0x5207, 0x3067, 0x6709, 0x80FD,
     0x306A, 65, 73, 0x30A2, 0x30B7, 0x30B9, 0x30BF, 0x30F3, 0x30C8, 0x3067,
     0x3059, 0x3002]"

definition prefix_st_error_init :: pystr where
  \<comment> \<open>line 55, the f-string prefix of st.error in the first handler\<close>
  "prefix_st_error_init =
    [79, 112, 101, 110, 65, 73, 0x30E2, 0x30C7, 0x30EB, 0x306E, 0x521D,
     0x671F, 0x5316, 0x4E2D, 0x306B, 0x30A8, 0x30E9, 0x30FC, 0x304C, 0x767A,
     0x751F, 0x3057, 0x307E, 0x3057, 0x305F, 58, 32]"

definition msg_init_failed :: pystr where
  \<comment> \<open>line 58, the string returned by the first handler: model initialisation failed, check the settings\<close>
  "msg_init_failed =
    [0x30E2, 0x30C7, 0x30EB, 0x306E, 0x521D, 0x671F, 0x5316, 0x306B, 0x5931,
     0x6557, 0x3057, 0x307E, 0x3057, 0x305F, 0x3002, 0x8A2D, 0x5B9A, 0x3092,
     0x78BA, 0x8A8D, 0x3057, 0x3066, 0x304F, 0x3060, 0x3055, 0x3044, 0x3002]"

definition prefix_st_error_invoke :: pystr where
  \<comment> \<open>line 71, the f-string prefix of st.error in the second handler\<close>
  "prefix_st_error_invoke =
    [76, 76, 77, 0x304B, 0x3089, 0x306E, 0x56DE, 0x7B54, 0x53D6, 0x5F97,
     0x4E2D, 0x306B, 0x30A8, 0x30E9, 0x30FC, 0x304C, 0x767A, 0x751F, 0x3057,
     0x307E, 0x3057, 0x305F, 58, 32]"

definition msg_invoke_failed :: pystr where
  \<comment> \<open>line 74, the string returned by the second handler: an error occurred while getting the answer, try again later\<close>
  "msg_invoke_failed =
    [0x56DE, 0x7B54, 0x306E, 0x53D6, 0x5F97, 0x4E2D, 0x306B, 0x30A8, 0x30E9,
     0x30FC, 0x304C, 0x767A, 0x751F, 0x3057, 0x307E, 0x3057, 0x305F, 0x3002,
     0x3057, 0x3070, 0x3089, 0x304F, 0x3057, 0x3066, 0x304B, 0x3089, 0x3082,
     0x3046, 0x4E00, 0x5EA6, 0x304A, 0x8A66, 0x3057, 0x304F, 0x3060, 0x3055,
     0x3044, 0x3002]"

definition title_text :: pystr where
  \<comment> \<open>line 78, the page title\<close>
  "title_text =
    [65, 73, 0x5C02, 0x9580, 0x5BB6, 0x30C1, 0x30E3, 0x30C3, 0x30C8]"

definition overview_markdown :: pystr where
  \<comment> \<open>lines 80-89, the triple-quoted markdown block\<close>
  "overview_markdown =
    [10, 35, 35, 35, 32, 0x30A2, 0x30D7, 0x30EA, 0x6982, 0x8981, 10, 0x3053,
     0x306E, 0x30A2, 0x30D7, 0x30EA, 0x30B1, 0x30FC, 0x30B7, 0x30E7, 0x30F3,
     0x3067, 0x306F, 0x3001, 65, 73, 0x306E, 0x5C02, 0x9580, 0x5BB6, 0x3068,
     0x30C1, 0x30E3, 0x30C3, 0x30C8, 0x3059, 0x308B, 0x3053, 0x3068, 0x304C,
     0x3067, 0x304D, 0x307E, 0x3059, 0x3002, 10, 0x76F8, 0x8AC7, 0x3057,
     0x305F, 0x3044, 0x5C02, 0x9580, 0x5BB6, 0x306E, 0x30BF, 0x30A4, 0x30D7,
     0x3092, 0x9078, 0x3073, 0x3001, 0x4E0B, 0x306E, 0x30D5, 0x30A9, 0x30FC,
     0x30E0, 0x306B, 0x8CEA, 0x554F, 0x3084, 0x76F8, 0x8AC7, 0x5185, 0x5BB9,
     0x3092, 0x5165, 0x529B, 0x3057, 0x3066, 0x304F, 0x3060, 0x3055, 0x3044,
     0x3002, 10, 10, 35, 35, 35, 32, 0x64CD, 0x4F5C, 0x65B9, 0x6CD5, 10, 49,
     46, 32, 32, 42, 42, 0x5C02, 0x9580, 0x5BB6, 0x3092, 0x9078, 0x629E, 42,
     42, 58, 32, 0x30E9, 0x30B8, 0x30AA, 0x30DC, 0x30BF, 0x30F3, 0x304B,
     0x3089, 0x300C, 0x5FC3, 0x7406, 0x30AB, 0x30A6, 0x30F3, 0x30BB, 0x30E9,
     0x30FC, 0x300D, 0x307E, 0x305F, 0x306F, 0x300C, 0x5065, 0x5EB7, 0x30A2,
     0x30C9, 0x30D0, 0x30A4, 0x30B6, 0x30FC, 0x300D, 0x3092, 0x9078, 0x3073,
     0x307E, 0x3059, 0x3002, 10, 50, 46, 32, 32, 42, 42, 0x76F8, 0x8AC7,
     0x5185, 0x5BB9, 0x3092, 0x5165, 0x529B, 42, 42, 58, 32, 0x30C6, 0x30AD,
     0x30B9, 0x30C8, 0x30A8, 0x30EA, 0x30A2, 0x306B, 0x3001, 0x5C02, 0x9580,
     0x5BB6, 0x306B, 0x805E, 0x304D, 0x305F, 0x3044, 0x3053, 0x3068, 0x3084,
     0x76F8, 0x8AC7, 0x3057, 0x305F, 0x3044, 0x5185, 0x5BB9, 0x3092, 0x5177,
     0x4F53, 0x7684, 0x306B, 0x5165, 0x529B, 0x3057, 0x307E, 0x3059, 0x3002,
     10, 51, 46, 32, 32, 42, 42, 0x9001, 0x4FE1, 42, 42, 58, 32, 0x300C,
     0x56DE, 0x7B54, 0x3092, 0x751F, 0x6210, 0x300D, 0x30DC, 0x30BF, 0x30F3,
     0x3092, 0x30AF, 0x30EA, 0x30C3, 0x30AF, 0x3059, 0x308B, 0x3068, 0x3001,
     65, 73, 0x5C02, 0x9580, 0x5BB6, 0x304B, 0x3089, 0x306E, 0x56DE, 0x7B54,
     0x304C, 0x8868, 0x793A, 0x3055, 0x308C, 0x307E, 0x3059, 0x3002, 10]"

definition radio_label :: pystr where
  \<comment> \<open>line 94, the label of the radio group\<close>
  "radio_label =
    [0x76F8, 0x8AC7, 0x3057, 0x305F, 0x3044, 0x5C02, 0x9580, 0x5BB6, 0x306E,
     0x30BF, 0x30A4, 0x30D7, 0x3092, 0x9078, 0x3093, 0x3067, 0x304F, 0x3060,
     0x3055, 0x3044, 58]"

definition suffix_text_area :: pystr where
  \<comment> \<open>line 100, the f-string suffix of the text-area label\<close>
  "suffix_text_area =
    [0x3078, 0x306E, 0x76F8, 0x8AC7, 0x5185, 0x5BB9, 0x3092, 0x5165, 0x529B,
     0x3057, 0x3066, 0x304F, 0x3060, 0x3055, 0x3044, 58]"

definition button_label :: pystr where
  \<comment> \<open>line 103, the label of the submit button\<close>
  "button_label =
    [0x56DE, 0x7B54, 0x3092, 0x751F, 0x6210]"

definition msg_warning_empty :: pystr where
  \<comment> \<open>line 105, the warning: enter what you want to consult about\<close>
  "msg_warning_empty =
    [0x76F8, 0x8AC7, 0x5185, 0x5BB9, 0x3092, 0x5165, 0x529B, 0x3057, 0x3066,
     0x304F, 0x3060, 0x3055, 0x3044, 0x3002]"

definition suffix_spinner :: pystr where
  \<comment> \<open>line 107, the f-string suffix of the spinner text\<close>
  "suffix_spinner =
    [0x304C, 0x8003, 0x3048, 0x3066, 0x3044, 0x307E, 0x3059, 46, 46, 46]"

definition suffix_subheader :: pystr where
  \<comment> \<open>line 110, the f-string suffix of the answer heading\<close>
  "suffix_subheader =
    [0x304B, 0x3089, 0x306E, 0x56DE, 0x7B54, 58]"

section \<open>Messages, clients and exceptions\<close>

text \<open>
  The three langchain message classes; each carries \<^verbatim>\<open>content\<close>. The class is the role:
  \<^verbatim>\<open>SystemMessage\<close> is sent with role system, \<^verbatim>\<open>HumanMessage\<close> with role user, and
  the answer of the model is an \<^verbatim>\<open>AIMessage\<close>.
\<close>

datatype message =
    SystemMessage (content: pystr)
  | HumanMessage (content: pystr)
  | AIMessage (content: pystr)

text \<open>
  A client object is modelled as the keyword arguments it was constructed with
  (lines 44-47 and 48-53). The literal \<^verbatim>\<open>0.7\<close> is kept as the decimal it denotes.
\<close>

record httpx_Client =
  proxies :: "pystr option"
  trust_env :: bool

record ChatOpenAI =
  model_name :: pystr
  temperature :: rat
  openai_api_key :: "pystr option"
  http_client :: httpx_Client

text \<open>
  A raised object. Both handlers of the script are \<^verbatim>\<open>except Exception as e\<close>, which
  matches an instance of \<^verbatim>\<open>Exception\<close> and lets every other \<^verbatim>\<open>BaseException\<close>
  (\<^verbatim>\<open>KeyboardInterrupt\<close>, \<^verbatim>\<open>SystemExit\<close>, \<^verbatim>\<open>GeneratorExit\<close>) pass. The argument is
  \<^verbatim>\<open>str(e)\<close>, which the f-strings of the handlers interpolate.
\<close>

datatype exn =
    Exception pystr
  | BaseException pystr

text \<open>
  What the script does to the outside, in order: the constructor calls, the call of the
  remote model, the console and the page.
\<close>

datatype event =
    New_httpx_Client httpx_Client
  | New_ChatOpenAI ChatOpenAI
  | Chat_invoke ChatOpenAI "message list"
  | Print pystr
  | St_error pystr
  | St_warning pystr
  | St_title pystr
  | St_markdown pystr
  | St_radio pystr "pystr list" nat
  | St_text_area pystr nat
  | St_button pystr
  | St_spinner pystr
  | St_subheader pystr
  | St_write pystr

text \<open>
  The libraries are outside the script; their behaviour is a parameter. A constructor
  either raises or builds the object; \<^verbatim>\<open>chat.invoke(messages)\<close> either raises or returns
  a message. The two calls each handler makes, \<^verbatim>\<open>st.error(...)\<close> and \<^verbatim>\<open>print(...)\<close>
  (lines 55-57 and 71-73), stand in the \<^verbatim>\<open>except\<close> block with nothing around them:
  each either returns or raises, and what it raises leaves the function. Under Streamlit
  every \<^verbatim>\<open>st\<close> call can raise the runner's \<^verbatim>\<open>RerunException\<close> or \<^verbatim>\<open>StopException\<close>,
  and \<^verbatim>\<open>print\<close> can fail on the console's encoding or a closed pipe.
\<close>

record world =
  httpx_Client_init :: "httpx_Client \<Rightarrow> exn option"
  ChatOpenAI_init :: "ChatOpenAI \<Rightarrow> exn option"
  invoke :: "ChatOpenAI \<Rightarrow> message list \<Rightarrow> exn + message"
  st_error :: "pystr \<Rightarrow> exn option"
  print :: "pystr \<Rightarrow> exn option"

section \<open>\<^verbatim>\<open>get_llm_response\<close>\<close>

definition system_message_content :: "pystr \<Rightarrow> pystr" where
  \<comment> \<open>lines 34-40: the value the if/elif/else chain assigns to \<^verbatim>\<open>system_message_content\<close>\<close>
  "system_message_content expert_type =
     (if expert_type = tag_counselor then instruction_counselor
      else if expert_type = tag_health_advisor then instruction_health_advisor
      else instruction_default)"

definition custom_httpx_client :: httpx_Client where
  \<comment> \<open>lines 44-47\<close>
  "custom_httpx_client = \<lparr>proxies = None, trust_env = False\<rparr>"

definition chat_client :: "pystr option \<Rightarrow> ChatOpenAI" where
  \<comment> \<open>lines 48-53; the argument is the module-level \<^verbatim>\<open>OPENAI_API_KEY\<close>\<close>
  "chat_client OPENAI_API_KEY =
     \<lparr>model_name = ascii ''gpt-3.5-turbo'',
      temperature = 0.7,
      openai_api_key = OPENAI_API_KEY,
      http_client = custom_httpx_client\<rparr>"

definition initialize :: "world \<Rightarrow> pystr option \<Rightarrow> (exn + ChatOpenAI) \<times> event list" where
  \<comment> \<open>the body of the first \<^verbatim>\<open>try\<close>, lines 44-53: the second constructor runs only when
      the first one has returned\<close>
  "initialize w OPENAI_API_KEY =
     (case httpx_Client_init w custom_httpx_client of
        Some e \<Rightarrow> (Inl e, [New_httpx_Client custom_httpx_client])
      | None \<Rightarrow>
         (case ChatOpenAI_init w (chat_client OPENAI_API_KEY) of
            Some e \<Rightarrow>
              (Inl e, [New_httpx_Client custom_httpx_client, New_ChatOpenAI (chat_client OPENAI_API_KEY)])
          | None \<Rightarrow>
              (Inr (chat_client OPENAI_API_KEY),
               [New_httpx_Client custom_httpx_client, New_ChatOpenAI (chat_client OPENAI_API_KEY)])))"

text \<open>
  The body of a handler, after the trace \<open>tr\<close> of what came before it: \<^verbatim>\<open>st.error\<close> with
  the shown text, \<^verbatim>\<open>print\<close> with the printed text, then \<^verbatim>\<open>return\<close> of the handler's
  fixed string. An exception raised by one of the two calls is raised inside the
  \<^verbatim>\<open>except\<close> block: the rest of the handler does not run and the exception leaves the
  function, whatever its class.
\<close>

definition handler ::
    "world \<Rightarrow> pystr \<Rightarrow> pystr \<Rightarrow> pystr \<Rightarrow> event list \<Rightarrow> (exn + pystr) \<times> event list" where
  "handler w shown printed sentinel tr =
     (case st_error w shown of
        Some x \<Rightarrow> (Inl x, tr @ [St_error shown])
      | None \<Rightarrow>
         (case print w printed of
            Some x \<Rightarrow> (Inl x, tr @ [St_error shown, Print printed])
          | None \<Rightarrow> (Inr sentinel, tr @ [St_error shown, Print printed])))"

text \<open>
  The function returns the string it returns, or the exception that leaves it (\<open>Inl\<close>),
  together with what it did. An exception \<^verbatim>\<open>except Exception\<close> matches is handed to the
  handler; any other leaves the function at once.
\<close>

definition get_llm_response ::
    "world \<Rightarrow> pystr option \<Rightarrow> pystr \<Rightarrow> pystr \<Rightarrow> (exn + pystr) \<times> event list" where
  "get_llm_response w OPENAI_API_KEY user_input expert_type =
     (case initialize w OPENAI_API_KEY of
        (Inl (Exception e), tr) \<Rightarrow>
          handler w (prefix_st_error_init @ e) (ascii ''Error initializing OpenAI model: '' @ e)
            msg_init_failed tr
      | (Inl (BaseException e), tr) \<Rightarrow> (Inl (BaseException e), tr)
      | (Inr chat, tr) \<Rightarrow>
          (let messages = [SystemMessage (system_message_content expert_type),
                           HumanMessage user_input]
           in case invoke w chat messages of
                Inr response \<Rightarrow> (Inr (content response), tr @ [Chat_invoke chat messages])
              | Inl (Exception e) \<Rightarrow>
                  handler w (prefix_st_error_invoke @ e)
                    (ascii ''Error getting response from LLM: '' @ e)
                    msg_invoke_failed (tr @ [Chat_invoke chat messages])
              | Inl (BaseException e) \<Rightarrow>
                  (Inl (BaseException e), tr @ [Chat_invoke chat messages])))"

text \<open>The conversations handed to \<^verbatim>\<open>chat.invoke\<close> in a trace, and the constructor calls.\<close>

fun invocations :: "event list \<Rightarrow> message list list" where
  "invocations [] = []"
| "invocations (Chat_invoke c ms # tr) = ms # invocations tr"
| "invocations (_ # tr) = invocations tr"

fun constructions :: "event list \<Rightarrow> event list" where
  "constructions [] = []"
| "constructions (New_httpx_Client c # tr) = New_httpx_Client c # constructions tr"
| "constructions (New_ChatOpenAI c # tr) = New_ChatOpenAI c # constructions tr"
| "constructions (_ # tr) = constructions tr"


section \<open>The script\<close>

text \<open>
  Streamlit runs the script from top to bottom on every interaction. One run reads the
  environment (line 8, after \<^verbatim>\<open>load_dotenv()\<close> has merged the \<^verbatim>\<open>.env\<close> file into it), and
  the widgets return what the user has set: the radio group its selected option, the text
  area its text, the button whether it was clicked.
\<close>

record ui =
  selected_expert :: pystr
  user_query :: pystr
  button :: bool

datatype status =
    Completed
  | Stopped
  | Propagated exn

definition os_getenv :: "(pystr \<rightharpoonup> pystr) \<Rightarrow> pystr \<Rightarrow> pystr option" where
  "os_getenv environ name = environ name"

definition expert_options :: "pystr list" where
  \<comment> \<open>line 92; the two literals are those of lines 34 and 36\<close>
  "expert_options = [tag_counselor, tag_health_advisor]"

definition page :: "pystr \<Rightarrow> event list" where
  \<comment> \<open>lines 78-103: title, overview, radio group, text area and button\<close>
  "page expert =
     [St_title title_text,
      St_markdown overview_markdown,
      St_radio radio_label expert_options 0,
      St_text_area (expert @ suffix_text_area) 150,
      St_button button_label]"

definition app :: "world \<Rightarrow> (pystr \<rightharpoonup> pystr) \<Rightarrow> ui \<Rightarrow> status \<times> event list" where
  "app w environ u =
     (let OPENAI_API_KEY = os_getenv environ (ascii ''OPENAI_API_KEY'') in
      if \<not> truthy OPENAI_API_KEY then (Stopped, [St_error msg_api_key_missing])
      else if button u then
        (if strip (user_query u) = [] then
           (Completed, page (selected_expert u) @ [St_warning msg_warning_empty])
         else
           (case get_llm_response w OPENAI_API_KEY (user_query u) (selected_expert u) of
              (Inr llm_answer, tr) \<Rightarrow>
                (Completed,
                 page (selected_expert u) @ [St_spinner (selected_expert u @ suffix_spinner)] @ tr @
                 [St_subheader (selected_expert u @ suffix_subheader), St_write llm_answer])
            | (Inl e, tr) \<Rightarrow>
                (Propagated e,
                 page (selected_expert u) @ [St_spinner (selected_expert u @ suffix_spinner)] @ tr)))
      else (Completed, page (selected_expert u)))"


section \<open>Library behaviours used as examples\<close>



definition constructed :: "world \<Rightarrow> pystr option \<Rightarrow> bool" where
  \<comment> \<open>both constructors of lines 44-53 return\<close>
  "constructed w k \<longleftrightarrow>
     httpx_Client_init w custom_httpx_client = None \<and> ChatOpenAI_init w (chat_client k) = None"

definition construction_raises :: "world \<Rightarrow> pystr option \<Rightarrow> exn \<Rightarrow> bool" where
  \<comment> \<open>one of the two constructors raises \<open>x\<close>; the second is reached only after the first\<close>
  "construction_raises w k x \<longleftrightarrow>
     httpx_Client_init w custom_httpx_client = Some x \<or>
     (httpx_Client_init w custom_httpx_client = None \<and> ChatOpenAI_init w (chat_client k) = Some x)"

definition world_answering :: "pystr \<Rightarrow> world" where
  \<comment> \<open>the clients are built and the model answers with the given text\<close>
  "world_answering t =
     \<lparr>httpx_Client_init = (\<lambda>_. None), ChatOpenAI_init = (\<lambda>_. None),
      invoke = (\<lambda>_ _. Inr (AIMessage t)),
      st_error = (\<lambda>_. None), print = (\<lambda>_. None)\<rparr>"

definition world_invoke_raising :: "exn \<Rightarrow> world" where
  \<comment> \<open>the clients are built and \<^verbatim>\<open>chat.invoke\<close> raises\<close>
  "world_invoke_raising x =
     \<lparr>httpx_Client_init = (\<lambda>_. None), ChatOpenAI_init = (\<lambda>_. None),
      invoke = (\<lambda>_ _. Inl x),
      st_error = (\<lambda>_. None), print = (\<lambda>_. None)\<rparr>"

definition world_httpx_raising :: "exn \<Rightarrow> world" where
  \<comment> \<open>\<^verbatim>\<open>httpx.Client(...)\<close> raises\<close>
  "world_httpx_raising x =
     \<lparr>httpx_Client_init = (\<lambda>_. Some x), ChatOpenAI_init = (\<lambda>_. None),
      invoke = (\<lambda>_ _. Inr (AIMessage [])),
      st_error = (\<lambda>_. None), print = (\<lambda>_. None)\<rparr>"

definition world_chat_raising :: "exn \<Rightarrow> world" where
  \<comment> \<open>\<^verbatim>\<open>ChatOpenAI(...)\<close> raises\<close>
  "world_chat_raising x =
     \<lparr>httpx_Client_init = (\<lambda>_. None), ChatOpenAI_init = (\<lambda>_. Some x),
      invoke = (\<lambda>_ _. Inr (AIMessage [])),
      st_error = (\<lambda>_. None), print = (\<lambda>_. None)\<rparr>"

definition world_invoke_and_st_error_raising :: "exn \<Rightarrow> exn \<Rightarrow> world" where
  \<comment> \<open>\<^verbatim>\<open>chat.invoke\<close> raises \<open>x\<close>, and \<^verbatim>\<open>st.error\<close> in the handler raises \<open>y\<close>\<close>
  "world_invoke_and_st_error_raising x y =
     \<lparr>httpx_Client_init = (\<lambda>_. None), ChatOpenAI_init = (\<lambda>_. None),
      invoke = (\<lambda>_ _. Inl x),
      st_error = (\<lambda>_. Some y), print = (\<lambda>_. None)\<rparr>"

definition world_httpx_and_print_raising :: "exn \<Rightarrow> exn \<Rightarrow> world" where
  \<comment> \<open>\<^verbatim>\<open>httpx.Client(...)\<close> raises \<open>x\<close>, and \<^verbatim>\<open>print\<close> in the handler raises \<open>y\<close>\<close>
  "world_httpx_and_print_raising x y =
     \<lparr>httpx_Client_init = (\<lambda>_. Some x), ChatOpenAI_init = (\<lambda>_. None),
      invoke = (\<lambda>_ _. Inr (AIMessage [])),
      st_error = (\<lambda>_. None), print = (\<lambda>_. Some y)\<rparr>"

section \<open>How the model is read\<close>

text \<open>
  Every call is recorded in the trace in the order the script makes it, a call that raises
  included. The constructors, \<^verbatim>\<open>chat.invoke\<close> and the two calls of each handler have the
  outcome the \<open>world\<close> gives them. The page calls of the script body (lines 17 and 78-110)
  are taken to return, as they do in a run the runner carries through.
\<close>

section \<open>Facts about the traces\<close>

lemma invocations_append: "invocations (xs @ ys) = invocations xs @ invocations ys"
  by (induction xs rule: invocations.induct) simp_all

lemma constructions_append: "constructions (xs @ ys) = constructions xs @ constructions ys"
  by (induction xs rule: constructions.induct) simp_all

lemma invocations_page: "invocations (page x) = []"
  by (simp add: page_def)

lemma constructions_page: "constructions (page x) = []"
  by (simp add: page_def)

lemma tags_distinct: "tag_health_advisor \<noteq> tag_counselor"
  by (simp add: tag_health_advisor_def tag_counselor_def)

lemma sentinels_distinct: "msg_init_failed \<noteq> msg_invoke_failed"
  by (simp add: msg_init_failed_def msg_invoke_failed_def)

lemma strip_empty_iff: "strip s = [] \<longleftrightarrow> (\<forall>c\<in>set s. isspace c)"
proof
  assume "strip s = []"
  then have "\<forall>x\<in>set (dropWhile isspace s). isspace x"
    by (simp add: strip_def)
  then have "dropWhile isspace s = []"
    using hd_dropWhile [of isspace s] by (cases "dropWhile isspace s") auto
  then show "\<forall>c\<in>set s. isspace c"
    by simp
next
  assume "\<forall>c\<in>set s. isspace c"
  then show "strip s = []"
    by (auto simp: strip_def dest: set_dropWhileD)
qed

subsection \<open>The first \<^verbatim>\<open>try\<close> block\<close>

lemma initialize_constructed:
  "constructed w k \<Longrightarrow>
   initialize w k =
     (Inr (chat_client k), [New_httpx_Client custom_httpx_client, New_ChatOpenAI (chat_client k)])"
  by (simp add: initialize_def constructed_def)

lemma initialize_cases:
  obtains (constructed) "constructed w k"
  | (raises) x where "construction_raises w k x"
  by (cases "httpx_Client_init w custom_httpx_client"; cases "ChatOpenAI_init w (chat_client k)")
     (auto simp: constructed_def construction_raises_def)

lemma initialize_raises:
  "construction_raises w k x \<Longrightarrow>
   fst (initialize w k) = Inl x \<and> invocations (snd (initialize w k)) = []"
  by (auto simp: construction_raises_def initialize_def)

lemma not_constructed_if_raises: "construction_raises w k x \<Longrightarrow> \<not> constructed w k"
  by (auto simp: construction_raises_def constructed_def)

subsection \<open>The handlers\<close>

lemma handler_returns:
  "st_error w shown = None \<Longrightarrow> print w printed = None \<Longrightarrow>
   handler w shown printed sentinel tr = (Inr sentinel, tr @ [St_error shown, Print printed])"
  by (simp add: handler_def)

lemma handler_st_error_raises:
  "st_error w shown = Some x \<Longrightarrow>
   handler w shown printed sentinel tr = (Inl x, tr @ [St_error shown])"
  by (simp add: handler_def)

lemma handler_print_raises:
  "st_error w shown = None \<Longrightarrow> print w printed = Some x \<Longrightarrow>
   handler w shown printed sentinel tr = (Inl x, tr @ [St_error shown, Print printed])"
  by (simp add: handler_def)

lemma handler_Inl:
  "fst (handler w shown printed sentinel tr) = Inl x \<Longrightarrow>
   st_error w shown = Some x \<or> print w printed = Some x"
  by (auto simp: handler_def split: option.splits)

lemma invocations_handler:
  "invocations (snd (handler w shown printed sentinel tr)) = invocations tr"
  by (simp add: handler_def invocations_append split: option.splits)

lemma constructions_handler:
  "constructions (snd (handler w shown printed sentinel tr)) = constructions tr"
  by (simp add: handler_def constructions_append split: option.splits)

lemma Chat_invoke_handler:
  "Chat_invoke c ms \<in> set (snd (handler w shown printed sentinel tr)) \<longleftrightarrow>
   Chat_invoke c ms \<in> set tr"
  by (simp add: handler_def split: option.splits)

subsection \<open>The function by the outcome of construction\<close>

lemma get_llm_response_constructed:
  assumes "constructed w k"
  shows "get_llm_response w k u e =
    (let ms = [SystemMessage (system_message_content e), HumanMessage u] in
     case invoke w (chat_client k) ms of
       Inr response \<Rightarrow>
         (Inr (content response),
          [New_httpx_Client custom_httpx_client, New_ChatOpenAI (chat_client k),
           Chat_invoke (chat_client k) ms])
     | Inl (Exception s) \<Rightarrow>
         handler w (prefix_st_error_invoke @ s) (ascii ''Error getting response from LLM: '' @ s)
           msg_invoke_failed
           [New_httpx_Client custom_httpx_client, New_ChatOpenAI (chat_client k),
            Chat_invoke (chat_client k) ms]
     | Inl (BaseException s) \<Rightarrow>
         (Inl (BaseException s),
          [New_httpx_Client custom_httpx_client, New_ChatOpenAI (chat_client k),
           Chat_invoke (chat_client k) ms]))"
  using assms
  by (simp add: get_llm_response_def initialize_constructed Let_def split: sum.splits exn.splits)

lemma get_llm_response_raises:
  assumes "construction_raises w k x"
  shows "get_llm_response w k u e =
    (case x of
       Exception s \<Rightarrow>
         handler w (prefix_st_error_init @ s) (ascii ''Error initializing OpenAI model: '' @ s)
           msg_init_failed (snd (initialize w k))
     | BaseException s \<Rightarrow> (Inl x, snd (initialize w k)))"
  using assms
  by (auto simp: get_llm_response_def construction_raises_def initialize_def split: exn.splits)

lemma invocations_get_llm_response:
  "invocations (snd (get_llm_response w k u e)) =
     (if constructed w k then [[SystemMessage (system_message_content e), HumanMessage u]] else [])"
proof (cases rule: initialize_cases [of w k])
  case constructed
  then show ?thesis
    by (simp add: get_llm_response_constructed Let_def invocations_handler
          split: sum.splits exn.splits)
next
  case (raises x)
  then show ?thesis
    using initialize_raises [OF raises] not_constructed_if_raises [OF raises]
    by (simp add: get_llm_response_raises invocations_handler split: exn.splits)
qed

lemma constructions_initialize:
  "constructions (snd (initialize w k)) =
     (if httpx_Client_init w custom_httpx_client = None
      then [New_httpx_Client custom_httpx_client, New_ChatOpenAI (chat_client k)]
      else [New_httpx_Client custom_httpx_client])"
  by (auto simp: initialize_def split: option.splits)

lemma constructions_get_llm_response:
  "constructions (snd (get_llm_response w k u e)) =
     (if httpx_Client_init w custom_httpx_client = None
      then [New_httpx_Client custom_httpx_client, New_ChatOpenAI (chat_client k)]
      else [New_httpx_Client custom_httpx_client])"
proof (cases rule: initialize_cases [of w k])
  case constructed
  then show ?thesis
    by (simp add: get_llm_response_constructed Let_def constructions_handler constructed_def
          split: sum.splits exn.splits)
next
  case (raises x)
  then show ?thesis
    by (simp add: get_llm_response_raises constructions_handler constructions_initialize
          split: exn.splits)
qed

lemma Chat_invoke_get_llm_response:
  assumes "Chat_invoke c ms \<in> set (snd (get_llm_response w k u e))"
  shows "c = chat_client k"
proof (cases rule: initialize_cases [of w k])
  case constructed
  with assms show ?thesis
    by (auto simp: get_llm_response_constructed Let_def Chat_invoke_handler
          split: sum.splits exn.splits)
next
  case (raises x)
  have "Chat_invoke c ms \<notin> set (snd (initialize w k))"
    by (auto simp: initialize_def split: option.splits)
  with assms raises show ?thesis
    by (auto simp: get_llm_response_raises Chat_invoke_handler split: exn.splits)
qed

lemma get_llm_response_Inl:
  assumes "fst (get_llm_response w k u e) = Inl x"
  shows "construction_raises w k x \<or>
         invoke w (chat_client k) [SystemMessage (system_message_content e), HumanMessage u] = Inl x \<or>
         (\<exists>m. st_error w m = Some x) \<or> (\<exists>m. print w m = Some x)"
proof (cases rule: initialize_cases [of w k])
  case constructed
  with assms show ?thesis
    by (auto simp: get_llm_response_constructed Let_def split: sum.splits exn.splits
          dest: handler_Inl)
next
  case (raises y)
  with assms have "x = y \<or> (\<exists>m. st_error w m = Some x) \<or> (\<exists>m. print w m = Some x)"
    by (auto simp: get_llm_response_raises split: exn.splits dest: handler_Inl)
  with raises show ?thesis by auto
qed


subsection \<open>A complete run\<close>

text \<open>
  With the key set, the health advisor selected and the text \<open>'' hello ''\<close> submitted, a
  run renders the page, calls the model once with the two messages, and writes the answer.
\<close>

lemma app_full_run:
  "app (world_answering (ascii ''ok'')) [ascii ''OPENAI_API_KEY'' \<mapsto> ascii ''sk-test'']
     \<lparr>selected_expert = tag_health_advisor, user_query = ascii '' hello '', button = True\<rparr> =
   (Completed,
    page tag_health_advisor @
    [St_spinner (tag_health_advisor @ suffix_spinner),
     New_httpx_Client custom_httpx_client,
     New_ChatOpenAI (chat_client (Some (ascii ''sk-test''))),
     Chat_invoke (chat_client (Some (ascii ''sk-test'')))
       [SystemMessage instruction_health_advisor, HumanMessage (ascii '' hello '')],
     St_subheader (tag_health_advisor @ suffix_subheader),
     St_write (ascii ''ok'')])"
  by (simp add: app_def os_getenv_def truthy_def strip_def isspace_def ascii_def
        get_llm_response_def initialize_def world_answering_def Let_def
        system_message_content_def tag_health_advisor_def tag_counselor_def)

section \<open>Persona resolution and the conversation\<close>

text \<open>
  C1. For each of the two known persona tags, the counselor tag and the health-advisor tag,
  \<^verbatim>\<open>get_llm_response\<close> resolves exactly the instruction string written for that tag: the
  if/elif chain yields it, and once the clients are built the conversation handed to the
  model starts with a system message carrying it.
\<close>

theorem known_persona_instruction:
  assumes "constructed w k"
  shows "system_message_content tag_counselor = instruction_counselor \<and>
         system_message_content tag_health_advisor = instruction_health_advisor \<and>
         invocations (snd (get_llm_response w k u tag_counselor)) =
           [[SystemMessage instruction_counselor, HumanMessage u]] \<and>
         invocations (snd (get_llm_response w k u tag_health_advisor)) =
           [[SystemMessage instruction_health_advisor, HumanMessage u]]"
proof -
  have c: "system_message_content tag_counselor = instruction_counselor"
    by (simp add: system_message_content_def)
  have h: "system_message_content tag_health_advisor = instruction_health_advisor"
    by (simp add: system_message_content_def tags_distinct)
  show ?thesis
    using assms c h by (simp add: invocations_get_llm_response)
qed

theorem known_persona_instruction_witness:
  "constructed (world_answering (ascii ''ok'')) (Some (ascii ''sk-test'')) \<and>
   system_message_content tag_counselor = instruction_counselor \<and>
   system_message_content tag_health_advisor = instruction_health_advisor \<and>
   invocations (snd (get_llm_response (world_answering (ascii ''ok'')) (Some (ascii ''sk-test''))
       (ascii ''hello'') tag_counselor)) =
     [[SystemMessage instruction_counselor, HumanMessage (ascii ''hello'')]] \<and>
   invocations (snd (get_llm_response (world_answering (ascii ''ok'')) (Some (ascii ''sk-test''))
       (ascii ''hello'') tag_health_advisor)) =
     [[SystemMessage instruction_health_advisor, HumanMessage (ascii ''hello'')]]"
proof -
  have h: "constructed (world_answering (ascii ''ok'')) (Some (ascii ''sk-test''))"
    by (simp add: constructed_def world_answering_def)
  show ?thesis
    using h known_persona_instruction [OF h, of "ascii ''hello''"] by simp
qed

text \<open>
  C2. For every user text (non-empty or not) and every persona tag, what is passed to the
  remote invocation is one conversation of exactly two messages, the system message first
  and the user message second, carrying the resolved instruction and the user text as it
  was given. When a constructor raises, nothing is passed at all.
\<close>

theorem conversation_system_then_user:
  "invocations (snd (get_llm_response w k user_input expert_type)) =
     (if constructed w k
      then [[SystemMessage (system_message_content expert_type), HumanMessage user_input]]
      else [])"
  by (rule invocations_get_llm_response)

theorem conversation_system_then_user_witness:
  "invocations (snd (get_llm_response (world_answering (ascii ''ok'')) (Some (ascii ''sk-test''))
       (ascii '' I feel anxious about work '') tag_counselor)) =
     [[SystemMessage instruction_counselor, HumanMessage (ascii '' I feel anxious about work '')]]"
  using conversation_system_then_user
          [of "world_answering (ascii ''ok'')" "Some (ascii ''sk-test'')"
              "ascii '' I feel anxious about work ''" tag_counselor]
  by (simp add: constructed_def world_answering_def system_message_content_def)

text \<open>
  C3. For an \<^verbatim>\<open>expert_type\<close> that is neither known tag, the chain yields the generic
  assistant instruction and that is the system message sent. The unknown tag is no source
  of failure: an exception leaves \<^verbatim>\<open>get_llm_response\<close> only if a constructor, the
  invocation or a call of a handler raised it, and when the clients are built and the
  model answers, the answer is returned.
\<close>

theorem unknown_persona_falls_back:
  assumes "expert_type \<noteq> tag_counselor" and "expert_type \<noteq> tag_health_advisor"
  shows "system_message_content expert_type = instruction_default \<and>
         invocations (snd (get_llm_response w k u expert_type)) =
           (if constructed w k then [[SystemMessage instruction_default, HumanMessage u]] else []) \<and>
         (\<forall>x. fst (get_llm_response w k u expert_type) = Inl x \<longrightarrow>
              construction_raises w k x \<or>
              invoke w (chat_client k) [SystemMessage instruction_default, HumanMessage u] = Inl x \<or>
              (\<exists>m. st_error w m = Some x) \<or> (\<exists>m. print w m = Some x)) \<and>
         (\<forall>r. constructed w k \<and>
              invoke w (chat_client k) [SystemMessage instruction_default, HumanMessage u] = Inr r \<longrightarrow>
              fst (get_llm_response w k u expert_type) = Inr (content r))"
proof -
  have d: "system_message_content expert_type = instruction_default"
    using assms by (simp add: system_message_content_def)
  have raised: "construction_raises w k x \<or>
      invoke w (chat_client k) [SystemMessage instruction_default, HumanMessage u] = Inl x \<or>
      (\<exists>m. st_error w m = Some x) \<or> (\<exists>m. print w m = Some x)"
    if "fst (get_llm_response w k u expert_type) = Inl x" for x
    using get_llm_response_Inl [OF that] d by simp
  have ok: "fst (get_llm_response w k u expert_type) = Inr (content r)"
    if "constructed w k"
      and "invoke w (chat_client k) [SystemMessage instruction_default, HumanMessage u] = Inr r" for r
    using that d by (simp add: get_llm_response_constructed Let_def)
  show ?thesis
    using d raised ok by (simp add: invocations_get_llm_response)
qed

theorem unknown_persona_falls_back_witness:
  "ascii ''pirate'' \<noteq> tag_counselor \<and> ascii ''pirate'' \<noteq> tag_health_advisor \<and>
   system_message_content (ascii ''pirate'') = instruction_default \<and>
   invocations (snd (get_llm_response (world_answering (ascii ''ok'')) (Some (ascii ''sk-test''))
       (ascii ''hello'') (ascii ''pirate''))) =
     [[SystemMessage instruction_default, HumanMessage (ascii ''hello'')]] \<and>
   fst (get_llm_response (world_answering (ascii ''ok'')) (Some (ascii ''sk-test''))
       (ascii ''hello'') (ascii ''pirate'')) = Inr (ascii ''ok'')"
proof -
  have h1: "ascii ''pirate'' \<noteq> tag_counselor"
    by (simp add: ascii_def tag_counselor_def)
  have h2: "ascii ''pirate'' \<noteq> tag_health_advisor"
    by (simp add: ascii_def tag_health_advisor_def)
  have c: "constructed (world_answering (ascii ''ok'')) (Some (ascii ''sk-test''))"
    by (simp add: constructed_def world_answering_def)
  have i: "invoke (world_answering (ascii ''ok'')) (chat_client (Some (ascii ''sk-test'')))
      [SystemMessage instruction_default, HumanMessage (ascii ''hello'')] = Inr (AIMessage (ascii ''ok''))"
    by (simp add: world_answering_def)
  show ?thesis
    using h1 h2 c i
      unknown_persona_falls_back [OF h1 h2, of "world_answering (ascii ''ok'')"
        "Some (ascii ''sk-test'')" "ascii ''hello''"]
    by simp
qed

section \<open>The two handlers\<close>

text \<open>
  C4, as stated, fails in two ways. \<^verbatim>\<open>except Exception\<close> does not match every exception:
  with the clients built and \<^verbatim>\<open>chat.invoke\<close> raising a \<^verbatim>\<open>KeyboardInterrupt\<close> (whose
  \<^verbatim>\<open>str\<close> is empty), the exception leaves \<^verbatim>\<open>get_llm_response\<close>. And the handler's own
  calls are not guarded: with \<^verbatim>\<open>chat.invoke\<close> raising an \<^verbatim>\<open>Exception\<close> and \<^verbatim>\<open>st.error\<close>
  then raising the runner's \<^verbatim>\<open>RerunException\<close>, that exception leaves the function. In
  neither case is the invocation-failure string returned.
\<close>

theorem invoke_failure_propagates:
  "fst (get_llm_response (world_invoke_raising (BaseException [])) (Some (ascii ''sk-test''))
     (ascii ''hello'') tag_counselor) = Inl (BaseException []) \<and>
   fst (get_llm_response
     (world_invoke_and_st_error_raising (Exception (ascii ''timeout'')) (BaseException (ascii ''rerun'')))
     (Some (ascii ''sk-test'')) (ascii ''hello'') tag_counselor) = Inl (BaseException (ascii ''rerun''))"
proof -
  have c1: "constructed (world_invoke_raising (BaseException [])) (Some (ascii ''sk-test''))"
    by (simp add: constructed_def world_invoke_raising_def)
  have 1: "fst (get_llm_response (world_invoke_raising (BaseException [])) (Some (ascii ''sk-test''))
     (ascii ''hello'') tag_counselor) = Inl (BaseException [])"
    by (simp add: get_llm_response_constructed [OF c1] Let_def) (simp add: world_invoke_raising_def)
  have c2: "constructed
      (world_invoke_and_st_error_raising (Exception (ascii ''timeout'')) (BaseException (ascii ''rerun'')))
      (Some (ascii ''sk-test''))"
    by (simp add: constructed_def world_invoke_and_st_error_raising_def)
  have 2: "fst (get_llm_response
     (world_invoke_and_st_error_raising (Exception (ascii ''timeout'')) (BaseException (ascii ''rerun'')))
     (Some (ascii ''sk-test'')) (ascii ''hello'') tag_counselor) = Inl (BaseException (ascii ''rerun''))"
    by (simp add: get_llm_response_constructed [OF c2] Let_def)
       (simp add: world_invoke_and_st_error_raising_def handler_def)
  show ?thesis
    using 1 2 by simp
qed

text \<open>
  C4, amended. If the remote invocation raises an exception that is an instance of
  \<^verbatim>\<open>Exception\<close>, \<^verbatim>\<open>get_llm_response\<close> catches it and calls \<^verbatim>\<open>st.error\<close> and \<^verbatim>\<open>print\<close>;
  when both calls return, it propagates nothing and returns the fixed invocation-failure
  string. (When one of the two calls raises, what it raises leaves the function.)
\<close>

theorem invoke_Exception_absorbed:
  assumes "constructed w k"
    and "invoke w (chat_client k) [SystemMessage (system_message_content e), HumanMessage u] =
           Inl (Exception s)"
  shows "(st_error w (prefix_st_error_invoke @ s) = None \<and>
          print w (ascii ''Error getting response from LLM: '' @ s) = None \<longrightarrow>
            get_llm_response w k u e =
              (Inr msg_invoke_failed,
               [New_httpx_Client custom_httpx_client, New_ChatOpenAI (chat_client k),
                Chat_invoke (chat_client k)
                  [SystemMessage (system_message_content e), HumanMessage u],
                St_error (prefix_st_error_invoke @ s),
                Print (ascii ''Error getting response from LLM: '' @ s)])) \<and>
         (\<forall>x. st_error w (prefix_st_error_invoke @ s) = Some x \<longrightarrow>
            fst (get_llm_response w k u e) = Inl x) \<and>
         (\<forall>x. st_error w (prefix_st_error_invoke @ s) = None \<and>
              print w (ascii ''Error getting response from LLM: '' @ s) = Some x \<longrightarrow>
            fst (get_llm_response w k u e) = Inl x)"
proof -
  have g: "get_llm_response w k u e =
      handler w (prefix_st_error_invoke @ s) (ascii ''Error getting response from LLM: '' @ s)
        msg_invoke_failed
        [New_httpx_Client custom_httpx_client, New_ChatOpenAI (chat_client k),
         Chat_invoke (chat_client k) [SystemMessage (system_message_content e), HumanMessage u]]"
    using assms by (simp add: get_llm_response_constructed Let_def)
  show ?thesis
    unfolding g
    by (simp add: handler_returns handler_st_error_raises handler_print_raises)
qed

theorem invoke_Exception_absorbed_witness:
  "constructed (world_invoke_raising (Exception (ascii ''timeout''))) (Some (ascii ''sk-test'')) \<and>
   invoke (world_invoke_raising (Exception (ascii ''timeout''))) (chat_client (Some (ascii ''sk-test'')))
     [SystemMessage (system_message_content tag_counselor), HumanMessage (ascii ''hello'')] =
     Inl (Exception (ascii ''timeout'')) \<and>
   st_error (world_invoke_raising (Exception (ascii ''timeout'')))
     (prefix_st_error_invoke @ ascii ''timeout'') = None \<and>
   print (world_invoke_raising (Exception (ascii ''timeout'')))
     (ascii ''Error getting response from LLM: '' @ ascii ''timeout'') = None \<and>
   fst (get_llm_response (world_invoke_raising (Exception (ascii ''timeout'')))
     (Some (ascii ''sk-test'')) (ascii ''hello'') tag_counselor) = Inr msg_invoke_failed"
proof -
  have c: "constructed (world_invoke_raising (Exception (ascii ''timeout''))) (Some (ascii ''sk-test''))"
    by (simp add: constructed_def world_invoke_raising_def)
  have i: "invoke (world_invoke_raising (Exception (ascii ''timeout'')))
      (chat_client (Some (ascii ''sk-test'')))
      [SystemMessage (system_message_content tag_counselor), HumanMessage (ascii ''hello'')] =
      Inl (Exception (ascii ''timeout''))"
    by (simp add: world_invoke_raising_def)
  have e: "st_error (world_invoke_raising (Exception (ascii ''timeout'')))
      (prefix_st_error_invoke @ ascii ''timeout'') = None"
    by (simp add: world_invoke_raising_def)
  have p: "print (world_invoke_raising (Exception (ascii ''timeout'')))
      (ascii ''Error getting response from LLM: '' @ ascii ''timeout'') = None"
    by (simp add: world_invoke_raising_def)
  show ?thesis
    using c i e p invoke_Exception_absorbed [OF c i] by simp
qed

text \<open>
  C5, as stated, fails in the same two ways in the first handler. When
  \<^verbatim>\<open>httpx.Client(...)\<close> raises a \<^verbatim>\<open>KeyboardInterrupt\<close>, the exception leaves
  \<^verbatim>\<open>get_llm_response\<close>; when it raises an \<^verbatim>\<open>Exception\<close> and \<^verbatim>\<open>print\<close> in the handler then
  raises (an encoding error, itself an \<^verbatim>\<open>Exception\<close>), that exception leaves the
  function. In neither case is the initialisation-failure string returned.
\<close>

theorem init_failure_propagates:
  "fst (get_llm_response (world_httpx_raising (BaseException [])) (Some (ascii ''sk-test''))
     (ascii ''hello'') tag_counselor) = Inl (BaseException []) \<and>
   fst (get_llm_response
     (world_httpx_and_print_raising (Exception (ascii ''bad proxy'')) (Exception (ascii ''encoding'')))
     (Some (ascii ''sk-test'')) (ascii ''hello'') tag_counselor) = Inl (Exception (ascii ''encoding''))"
proof -
  have r1: "construction_raises (world_httpx_raising (BaseException [])) (Some (ascii ''sk-test''))
      (BaseException [])"
    by (simp add: construction_raises_def world_httpx_raising_def)
  have 1: "fst (get_llm_response (world_httpx_raising (BaseException [])) (Some (ascii ''sk-test''))
     (ascii ''hello'') tag_counselor) = Inl (BaseException [])"
    by (simp add: get_llm_response_raises [OF r1])
  have r2: "construction_raises
      (world_httpx_and_print_raising (Exception (ascii ''bad proxy'')) (Exception (ascii ''encoding'')))
      (Some (ascii ''sk-test'')) (Exception (ascii ''bad proxy''))"
    by (simp add: construction_raises_def world_httpx_and_print_raising_def)
  have 2: "fst (get_llm_response
     (world_httpx_and_print_raising (Exception (ascii ''bad proxy'')) (Exception (ascii ''encoding'')))
     (Some (ascii ''sk-test'')) (ascii ''hello'') tag_counselor) = Inl (Exception (ascii ''encoding''))"
    by (simp add: get_llm_response_raises [OF r2])
       (simp add: world_httpx_and_print_raising_def handler_def)
  show ?thesis
    using 1 2 by simp
qed

text \<open>
  C5, amended. If client construction raises, the remote completion endpoint is never
  invoked for that request. If what it raises is an instance of \<^verbatim>\<open>Exception\<close>,
  \<^verbatim>\<open>get_llm_response\<close> calls \<^verbatim>\<open>st.error\<close> and \<^verbatim>\<open>print\<close> and, when both calls return,
  returns the fixed initialisation-failure string, which is distinct from the
  invocation-failure string. (An exception outside \<^verbatim>\<open>Exception\<close>, and what one of the two
  calls raises, leaves the function.)
\<close>

theorem init_Exception_absorbed:
  assumes "construction_raises w k x"
  shows "invocations (snd (get_llm_response w k u e)) = [] \<and>
         msg_init_failed \<noteq> msg_invoke_failed \<and>
         (\<forall>s. x = Exception s \<and> st_error w (prefix_st_error_init @ s) = None \<and>
              print w (ascii ''Error initializing OpenAI model: '' @ s) = None \<longrightarrow>
            fst (get_llm_response w k u e) = Inr msg_init_failed) \<and>
         (\<forall>s y. x = Exception s \<and> st_error w (prefix_st_error_init @ s) = Some y \<longrightarrow>
            fst (get_llm_response w k u e) = Inl y) \<and>
         (\<forall>s y. x = Exception s \<and> st_error w (prefix_st_error_init @ s) = None \<and>
              print w (ascii ''Error initializing OpenAI model: '' @ s) = Some y \<longrightarrow>
            fst (get_llm_response w k u e) = Inl y) \<and>
         (\<forall>s. x = BaseException s \<longrightarrow> fst (get_llm_response w k u e) = Inl x)"
proof -
  have "invocations (snd (get_llm_response w k u e)) = []"
    using not_constructed_if_raises [OF assms] by (simp add: invocations_get_llm_response)
  moreover have "fst (get_llm_response w k u e) = Inr msg_init_failed"
    if "x = Exception s" and "st_error w (prefix_st_error_init @ s) = None"
      and "print w (ascii ''Error initializing OpenAI model: '' @ s) = None" for s
    using that by (simp add: get_llm_response_raises [OF assms] handler_returns)
  moreover have "fst (get_llm_response w k u e) = Inl y"
    if "x = Exception s" and "st_error w (prefix_st_error_init @ s) = Some y" for s y
    using that by (simp add: get_llm_response_raises [OF assms] handler_st_error_raises)
  moreover have "fst (get_llm_response w k u e) = Inl y"
    if "x = Exception s" and "st_error w (prefix_st_error_init @ s) = None"
      and "print w (ascii ''Error initializing OpenAI model: '' @ s) = Some y" for s y
    using that by (simp add: get_llm_response_raises [OF assms] handler_print_raises)
  moreover have "fst (get_llm_response w k u e) = Inl x" if "x = BaseException s" for s
    using that by (simp add: get_llm_response_raises [OF assms])
  ultimately show ?thesis
    using sentinels_distinct by blast
qed

theorem init_Exception_absorbed_witness:
  "construction_raises (world_chat_raising (Exception (ascii ''bad key''))) (Some (ascii ''sk-test''))
     (Exception (ascii ''bad key'')) \<and>
   st_error (world_chat_raising (Exception (ascii ''bad key'')))
     (prefix_st_error_init @ ascii ''bad key'') = None \<and>
   print (world_chat_raising (Exception (ascii ''bad key'')))
     (ascii ''Error initializing OpenAI model: '' @ ascii ''bad key'') = None \<and>
   invocations (snd (get_llm_response (world_chat_raising (Exception (ascii ''bad key'')))
     (Some (ascii ''sk-test'')) (ascii ''hello'') tag_counselor)) = [] \<and>
   fst (get_llm_response (world_chat_raising (Exception (ascii ''bad key'')))
     (Some (ascii ''sk-test'')) (ascii ''hello'') tag_counselor) = Inr msg_init_failed"
proof -
  have r: "construction_raises (world_chat_raising (Exception (ascii ''bad key'')))
      (Some (ascii ''sk-test'')) (Exception (ascii ''bad key''))"
    by (simp add: construction_raises_def world_chat_raising_def)
  have e: "st_error (world_chat_raising (Exception (ascii ''bad key'')))
      (prefix_st_error_init @ ascii ''bad key'') = None"
    by (simp add: world_chat_raising_def)
  have p: "print (world_chat_raising (Exception (ascii ''bad key'')))
      (ascii ''Error initializing OpenAI model: '' @ ascii ''bad key'') = None"
    by (simp add: world_chat_raising_def)
  show ?thesis
    using r e p init_Exception_absorbed [OF r, of "ascii ''hello''" tag_counselor] by simp
qed

section \<open>The answer\<close>

text \<open>
  C6. For every input, if the clients are built and the remote invocation returns a
  message with text T, \<^verbatim>\<open>get_llm_response\<close> returns exactly T: nothing is trimmed, wrapped
  or cut.
\<close>

theorem answer_returned_verbatim:
  assumes "constructed w k"
    and "invoke w (chat_client k) [SystemMessage (system_message_content e), HumanMessage u] =
           Inr response"
  shows "fst (get_llm_response w k u e) = Inr (content response)"
  using assms by (simp add: get_llm_response_constructed Let_def)

theorem answer_returned_verbatim_witness:
  "constructed (world_answering (ascii ''  T  '')) (Some (ascii ''sk-test'')) \<and>
   invoke (world_answering (ascii ''  T  '')) (chat_client (Some (ascii ''sk-test'')))
     [SystemMessage (system_message_content tag_counselor), HumanMessage (ascii ''hello'')] =
     Inr (AIMessage (ascii ''  T  '')) \<and>
   fst (get_llm_response (world_answering (ascii ''  T  '')) (Some (ascii ''sk-test''))
     (ascii ''hello'') tag_counselor) = Inr (ascii ''  T  '')"
proof -
  have c: "constructed (world_answering (ascii ''  T  '')) (Some (ascii ''sk-test''))"
    by (simp add: constructed_def world_answering_def)
  have i: "invoke (world_answering (ascii ''  T  '')) (chat_client (Some (ascii ''sk-test'')))
      [SystemMessage (system_message_content tag_counselor), HumanMessage (ascii ''hello'')] =
      Inr (AIMessage (ascii ''  T  ''))"
    by (simp add: world_answering_def)
  show ?thesis
    using c i answer_returned_verbatim [OF c i] by simp
qed

section \<open>Start-up and the submit button\<close>




text \<open>
  C8. For every \<^verbatim>\<open>user_query\<close> that is empty or consists only of white space, a run makes
  no constructor call and no remote invocation (every call of \<^verbatim>\<open>get_llm_response\<close> starts
  with a constructor call, so it is not invoked), and when the form is submitted (the key
  is set and the button clicked) the run renders the page and shows the warning.
\<close>

theorem blank_query_rejected:
  assumes "\<forall>c\<in>set (user_query u). isspace c"
  shows "invocations (snd (app w environ u)) = [] \<and>
         constructions (snd (app w environ u)) = [] \<and>
         (truthy (environ (ascii ''OPENAI_API_KEY'')) \<and> button u \<longrightarrow>
            app w environ u =
              (Completed, page (selected_expert u) @ [St_warning msg_warning_empty]))"
proof -
  have "strip (user_query u) = []"
    using assms by (simp add: strip_empty_iff)
  then show ?thesis
    by (simp add: app_def os_getenv_def Let_def invocations_append constructions_append
          invocations_page constructions_page)
qed

theorem blank_query_rejected_witness:
  "isspace 0x3000 \<and> isspace 32 \<and> isspace 10 \<and>
   app (world_answering (ascii ''ok'')) [ascii ''OPENAI_API_KEY'' \<mapsto> ascii ''sk-test'']
     \<lparr>selected_expert = tag_counselor, user_query = [0x3000, 32, 10], button = True\<rparr> =
     (Completed, page tag_counselor @ [St_warning msg_warning_empty])"
proof -
  have s: "isspace 0x3000 \<and> isspace 32 \<and> isspace 10"
    by (simp add: isspace_def)
  then have h: "\<forall>c\<in>set (user_query
       \<lparr>selected_expert = tag_counselor, user_query = [0x3000, 32, 10], button = True\<rparr>). isspace c"
    by simp
  show ?thesis
    using s blank_query_rejected [OF h, of "world_answering (ascii ''ok'')"
        "[ascii ''OPENAI_API_KEY'' \<mapsto> ascii ''sk-test'']"]
    by (simp add: truthy_def ascii_def)
qed

section \<open>The client configuration and the independence of the two inputs\<close>

text \<open>
  C9. For every input pair the clients are constructed with the same fixed configuration:
  the HTTP client with no proxies and \<^verbatim>\<open>trust_env\<close> false, and on it the chat client with
  model \<^verbatim>\<open>gpt-3.5-turbo\<close>, temperature 0.7 and the process-wide key. The constructor calls
  are the same for any other user text and persona, and the client that is invoked is the
  one so configured.
\<close>

theorem client_configuration_fixed:
  "constructions (snd (get_llm_response w k u e)) =
     (if httpx_Client_init w \<lparr>proxies = None, trust_env = False\<rparr> = None
      then [New_httpx_Client \<lparr>proxies = None, trust_env = False\<rparr>,
            New_ChatOpenAI
              \<lparr>model_name = ascii ''gpt-3.5-turbo'', temperature = 7 / 10, openai_api_key = k,
               http_client = \<lparr>proxies = None, trust_env = False\<rparr>\<rparr>]
      else [New_httpx_Client \<lparr>proxies = None, trust_env = False\<rparr>]) \<and>
   constructions (snd (get_llm_response w k u e)) =
     constructions (snd (get_llm_response w k u' e')) \<and>
   (\<forall>c ms. Chat_invoke c ms \<in> set (snd (get_llm_response w k u e)) \<longrightarrow>
      c = \<lparr>model_name = ascii ''gpt-3.5-turbo'', temperature = 7 / 10, openai_api_key = k,
           http_client = \<lparr>proxies = None, trust_env = False\<rparr>\<rparr>)"
proof -
  have "c = chat_client k" if "Chat_invoke c ms \<in> set (snd (get_llm_response w k u e))" for c ms
    using that by (rule Chat_invoke_get_llm_response)
  then show ?thesis
    by (simp add: constructions_get_llm_response chat_client_def custom_httpx_client_def)
qed

theorem client_configuration_fixed_witness:
  "constructions (snd (get_llm_response (world_answering (ascii ''ok'')) (Some (ascii ''sk-test''))
       (ascii ''hello'') tag_health_advisor)) =
     [New_httpx_Client \<lparr>proxies = None, trust_env = False\<rparr>,
      New_ChatOpenAI
        \<lparr>model_name = ascii ''gpt-3.5-turbo'', temperature = 7 / 10,
         openai_api_key = Some (ascii ''sk-test''),
         http_client = \<lparr>proxies = None, trust_env = False\<rparr>\<rparr>] \<and>
   Chat_invoke
     \<lparr>model_name = ascii ''gpt-3.5-turbo'', temperature = 7 / 10,
      openai_api_key = Some (ascii ''sk-test''),
      http_client = \<lparr>proxies = None, trust_env = False\<rparr>\<rparr>
     [SystemMessage instruction_health_advisor, HumanMessage (ascii ''hello'')]
   \<in> set (snd (get_llm_response (world_answering (ascii ''ok'')) (Some (ascii ''sk-test''))
       (ascii ''hello'') tag_health_advisor))"
proof -
  have c: "constructed (world_answering (ascii ''ok'')) (Some (ascii ''sk-test''))"
    by (simp add: constructed_def world_answering_def)
  have s: "system_message_content tag_health_advisor = instruction_health_advisor"
    by (simp add: system_message_content_def tags_distinct)
  have m: "Chat_invoke (chat_client (Some (ascii ''sk-test'')))
      [SystemMessage instruction_health_advisor, HumanMessage (ascii ''hello'')]
    \<in> set (snd (get_llm_response (world_answering (ascii ''ok'')) (Some (ascii ''sk-test''))
       (ascii ''hello'') tag_health_advisor))"
    by (simp add: get_llm_response_constructed [OF c] Let_def s) (simp add: world_answering_def)
  show ?thesis
    using m client_configuration_fixed [of "world_answering (ascii ''ok'')" "Some (ascii ''sk-test'')"
      "ascii ''hello''" tag_health_advisor]
    by (simp add: world_answering_def chat_client_def custom_httpx_client_def)
qed

text \<open>
  C10. Prompt construction does not let one input reach the other's message. Of any two
  calls with the same \<^verbatim>\<open>expert_type\<close>, the system messages handed to the model are equal,
  whatever the user texts (and the libraries and keys) are; of any two calls with the same
  \<^verbatim>\<open>user_input\<close>, the user messages are equal, whatever the persona tags are.
\<close>

theorem prompt_noninterference:
  assumes "ms1 \<in> set (invocations (snd (get_llm_response w1 k1 u1 e1)))"
    and "ms2 \<in> set (invocations (snd (get_llm_response w2 k2 u2 e2)))"
  shows "(e1 = e2 \<longrightarrow> ms1 ! 0 = ms2 ! 0) \<and> (u1 = u2 \<longrightarrow> ms1 ! 1 = ms2 ! 1)"
proof -
  have 1: "ms1 = [SystemMessage (system_message_content e1), HumanMessage u1]"
    using assms(1) by (simp add: invocations_get_llm_response split: if_splits)
  have 2: "ms2 = [SystemMessage (system_message_content e2), HumanMessage u2]"
    using assms(2) by (simp add: invocations_get_llm_response split: if_splits)
  show ?thesis
    by (simp add: 1 2)
qed

theorem prompt_noninterference_witness:
  "[SystemMessage instruction_counselor, HumanMessage (ascii ''hello'')] \<in>
     set (invocations (snd (get_llm_response (world_answering (ascii ''ok''))
       (Some (ascii ''sk-test'')) (ascii ''hello'') tag_counselor))) \<and>
   [SystemMessage instruction_counselor, HumanMessage (ascii ''bye'')] \<in>
     set (invocations (snd (get_llm_response (world_answering (ascii ''no''))
       (Some (ascii ''sk-test'')) (ascii ''bye'') tag_counselor))) \<and>
   [SystemMessage instruction_counselor, HumanMessage (ascii ''hello'')] ! 0 =
   [SystemMessage instruction_counselor, HumanMessage (ascii ''bye'')] ! 0"
proof -
  have c: "constructed (world_answering t) (Some (ascii ''sk-test''))" for t
    by (simp add: constructed_def world_answering_def)
  have s: "system_message_content tag_counselor = instruction_counselor"
    by (simp add: system_message_content_def)
  have 1: "[SystemMessage instruction_counselor, HumanMessage (ascii ''hello'')] \<in>
     set (invocations (snd (get_llm_response (world_answering (ascii ''ok''))
       (Some (ascii ''sk-test'')) (ascii ''hello'') tag_counselor)))"
    by (simp add: invocations_get_llm_response c s)
  have 2: "[SystemMessage instruction_counselor, HumanMessage (ascii ''bye'')] \<in>
     set (invocations (snd (get_llm_response (world_answering (ascii ''no''))
       (Some (ascii ''sk-test'')) (ascii ''bye'') tag_counselor)))"
    by (simp add: invocations_get_llm_response c s)
  show ?thesis
    using 1 2 prompt_noninterference [OF 1 2] by simp
qed

end
